theory Spec2Isabelle
  imports Main
begin

section \<open>The Gemini channel adaptor (relay/channel/gemini/adaptor.go)\<close>

text \<open>
  A shallow embedding of the adaptor: Go strings are byte lists (\<open>string\<close>), structs are
  records, a Go \<open>(value, error)\<close> pair is a sum with the error on the left, and the
  collaborators the adaptor calls but does not define (settings, the JSON codec, the
  media services, the clock) are parameters of the functions that call them.
\<close>

subsection \<open>The functions of Go's package strings that the adaptor uses\<close>

definition HasPrefix :: "string \<Rightarrow> string \<Rightarrow> bool" where
  "HasPrefix s pre = (length pre \<le> length s \<and> take (length pre) s = pre)"

definition HasSuffix :: "string \<Rightarrow> string \<Rightarrow> bool" where
  "HasSuffix s suf = (length suf \<le> length s \<and> drop (length s - length suf) s = suf)"

definition TrimSuffix :: "string \<Rightarrow> string \<Rightarrow> string" where
  "TrimSuffix s suf = (if HasSuffix s suf then take (length s - length suf) s else s)"

text \<open>\<open>Index s sep\<close> is the offset of the leftmost occurrence of \<open>sep\<close> in \<open>s\<close>; Go's \<open>-1\<close>
  is \<open>None\<close>.\<close>

fun Index :: "string \<Rightarrow> string \<Rightarrow> nat option" where
  "Index [] sep = (if sep = [] then Some 0 else None)"
| "Index (c # cs) sep =
     (if HasPrefix (c # cs) sep then Some 0
      else case Index cs sep of None \<Rightarrow> None | Some m \<Rightarrow> Some (Suc m))"

definition Contains :: "string \<Rightarrow> string \<Rightarrow> bool" where
  "Contains s substr = (Index s substr \<noteq> None)"

text \<open>\<open>Split s sep\<close> cuts \<open>s\<close> at the non-overlapping occurrences of \<open>sep\<close>, leftmost
  first, as \<open>genSplit\<close> does with no limit. With an empty separator Go explodes the string
  into its UTF-8 sequences; the model does so bytewise, which is the same on ASCII, and
  the adaptor only ever splits at a fixed non-empty separator.\<close>

function Split :: "string \<Rightarrow> string \<Rightarrow> string list" where
  "Split s sep =
     (if sep = [] then map (\<lambda>c. [c]) s
      else case Index s sep of
             None \<Rightarrow> [s]
           | Some m \<Rightarrow> take m s # Split (drop (m + length sep) s) sep)"
  by pat_completeness auto
termination
proof (relation "measure (\<lambda>(s, sep). length s)", goal_cases)
  case 1
  then show ?case by simp
next
  case (2 s sep m)
  then show ?case by (cases s) (auto split: if_splits)
qed

subsection \<open>Collaborators' data, as far as the adaptor reads or writes it\<close>

text \<open>\<open>service.OpenAIErrorWrapper err code status\<close> builds the error envelope from the
  error's text, a code and an HTTP status.\<close>

datatype OpenAIErrorWithStatusCode =
  OpenAIErrorWrapper string string int

record Usage =
  PromptTokens :: int
  CompletionTokens :: int
  TotalTokens :: int

record GeminiImagePrediction =
  BytesBase64Encoded :: string
  RaiFilteredReason :: string

record GeminiImageResponse =
  Predictions :: "GeminiImagePrediction list"

record ImageData =
  B64Json :: string

record ImageResponse =
  Created :: int
  Data :: "ImageData list"

text \<open>The inbound HTTP response: \<open>io.ReadAll\<close> on its body either fails or gives the
  bytes.\<close>

record HttpResponse =
  Body :: "string + string"
  StatusCode :: int

text \<open>The outbound response writer of the request context: headers, the status written
  (if any) and the bytes written so far.\<close>

record ResponseWriter =
  Header :: "string \<rightharpoonup> string"
  Status :: "int option"
  Written :: string

abbreviation StatusInternalServerError :: int where
  "StatusInternalServerError \<equiv> 500"

abbreviation StatusBadRequest :: int where
  "StatusBadRequest \<equiv> 400"

subsection \<open>GeminiImageHandler\<close>

text \<open>The loop over the predictions: a prediction with a filter reason is skipped, every
  other one appends its image to \<open>openAIResponse.Data\<close>.\<close>

fun appendImages :: "GeminiImagePrediction list \<Rightarrow> ImageData list \<Rightarrow> ImageData list" where
  "appendImages [] data = data"
| "appendImages (prediction # rest) data =
     (if RaiFilteredReason prediction \<noteq> [] then appendImages rest data
      else appendImages rest (data @ [\<lparr>B64Json = BytesBase64Encoded prediction\<rparr>]))"

abbreviation imageTokens :: int where
  "imageTokens \<equiv> 258"

text \<open>
  The handler takes the JSON decoder and encoder and the clock as parameters, the writer
  as state, and returns the writer with the Go result pair as a sum. Go's \<open>int\<close> is
  modelled by \<open>int\<close>: the number of predictions is bounded by the size of the body held
  in memory, far below the range where \<open>258 * n\<close> leaves 64 bits. Closing the inbound
  body changes nothing the handler returns or writes, and is left out.
\<close>

definition GeminiImageHandler ::
  "(string \<Rightarrow> string + GeminiImageResponse) \<Rightarrow> (ImageResponse \<Rightarrow> string + string) \<Rightarrow> int \<Rightarrow>
   ResponseWriter \<Rightarrow> HttpResponse \<Rightarrow> ResponseWriter \<times> (OpenAIErrorWithStatusCode + Usage)" where
  "GeminiImageHandler Unmarshal Marshal GetTimestamp w resp =
     (case Body resp of
        Inl readErr \<Rightarrow>
          (w, Inl (OpenAIErrorWrapper readErr ''read_response_body_failed'' StatusInternalServerError))
      | Inr responseBody \<Rightarrow>
     (case Unmarshal responseBody of
        Inl jsonErr \<Rightarrow>
          (w, Inl (OpenAIErrorWrapper jsonErr ''unmarshal_response_body_failed'' StatusInternalServerError))
      | Inr geminiResponse \<Rightarrow>
     if length (Predictions geminiResponse) = 0
     then (w, Inl (OpenAIErrorWrapper ''no images generated'' ''no_images'' StatusBadRequest))
     else
       let openAIResponse =
             \<lparr>Created = GetTimestamp, Data = appendImages (Predictions geminiResponse) []\<rparr>
       in (case Marshal openAIResponse of
             Inl jsonErr \<Rightarrow>
               (w, Inl (OpenAIErrorWrapper jsonErr ''marshal_response_failed'' StatusInternalServerError))
           | Inr jsonResponse \<Rightarrow>
               let w' = w\<lparr>Header := (Header w)(''Content-Type'' \<mapsto> ''application/json''),
                          Status := Some (StatusCode resp),
                          Written := Written w @ jsonResponse\<rparr>;
                   generatedImages = int (length (Data openAIResponse))
               in (w', Inr \<lparr>PromptTokens = imageTokens * generatedImages,
                            CompletionTokens = 0,
                            TotalTokens = imageTokens * generatedImages\<rparr>))))"

text \<open>The surviving predictions of a vendor response: those with an empty filter
  reason.\<close>

definition surviving :: "GeminiImageResponse \<Rightarrow> GeminiImagePrediction list" where
  "surviving r = filter (\<lambda>p. RaiFilteredReason p = []) (Predictions r)"

subsection \<open>GetRequestURL\<close>

record RelayInfo =
  UpstreamModelName :: string
  BaseUrl :: string
  IsStream :: bool

text \<open>The rewriting of the model name that \<open>GetRequestURL\<close> does when the thinking
  adapter is enabled: the three branches of its first \<open>if\<close> chain, in the source's order.
  \<open>parts[0]\<close> is in range, since \<open>Split\<close> at a non-empty separator never gives an empty
  slice (lemma \<open>Split_not_Nil\<close> below).\<close>

definition thinkingAdapter :: "string \<Rightarrow> string" where
  "thinkingAdapter name =
     (if Contains name ''-thinking-'' then
        (let parts = Split name ''-thinking-'' in parts ! 0)
      else if HasSuffix name ''-thinking'' then TrimSuffix name ''-thinking''
      else if HasSuffix name ''-nothinking'' then TrimSuffix name ''-nothinking''
      else name)"

text \<open>
  \<open>GetRequestURL\<close> takes the two settings it reads (the thinking-adapter flag and the
  version lookup) as parameters and returns the updated \<open>info\<close> with the Go result pair;
  \<open>fmt.Sprintf\<close> with \<open>%s\<close> verbs is concatenation. The error is always \<open>nil\<close>, so the
  result is always \<open>Inr\<close>.
\<close>

definition GetRequestURL ::
  "bool \<Rightarrow> (string \<Rightarrow> string) \<Rightarrow> RelayInfo \<Rightarrow> RelayInfo \<times> (string + string)" where
  "GetRequestURL ThinkingAdapterEnabled GetGeminiVersionSetting info0 =
     (let info = (if ThinkingAdapterEnabled
                  then info0\<lparr>UpstreamModelName := thinkingAdapter (UpstreamModelName info0)\<rparr>
                  else info0);
          version = GetGeminiVersionSetting (UpstreamModelName info)
      in if HasPrefix (UpstreamModelName info) ''imagen'' then
           (info, Inr (BaseUrl info @ ''/'' @ version @ ''/models/'' @ UpstreamModelName info
                       @ '':predict''))
         else if HasPrefix (UpstreamModelName info) ''text-embedding'' \<or>
                 HasPrefix (UpstreamModelName info) ''embedding'' \<or>
                 HasPrefix (UpstreamModelName info) ''gemini-embedding'' then
           (info, Inr (BaseUrl info @ ''/'' @ version @ ''/models/'' @ UpstreamModelName info
                       @ '':embedContent''))
         else
           (let action = (if IsStream info then ''streamGenerateContent?alt=sse''
                          else ''generateContent'')
            in (info, Inr (BaseUrl info @ ''/'' @ version @ ''/models/'' @ UpstreamModelName info
                           @ '':'' @ action))))"

text \<open>The action of the endpoint resolver as the specification words it: the prefix
  rules in order, first match wins.\<close>

definition resolvedAction :: "string \<Rightarrow> bool \<Rightarrow> string" where
  "resolvedAction modelId streaming =
     (if HasPrefix modelId ''imagen'' then ''predict''
      else if HasPrefix modelId ''text-embedding'' then ''embedContent''
      else if HasPrefix modelId ''embedding'' then ''embedContent''
      else if HasPrefix modelId ''gemini-embedding'' then ''embedContent''
      else if streaming then ''streamGenerateContent?alt=sse''
      else ''generateContent'')"

subsection \<open>The reasoning budget of a model directive\<close>

text \<open>Decimal numerals: how a budget is written into a model name, and how it is read
  back.\<close>

definition digitChar :: "nat \<Rightarrow> char" where
  "digitChar d = char_of (of_char CHR ''0'' + d)"

definition digitValue :: "char \<Rightarrow> nat option" where
  "digitValue c =
     (let v = (of_char c :: nat)
      in if of_char CHR ''0'' \<le> v \<and> v \<le> of_char CHR ''9'' then Some (v - of_char CHR ''0'')
         else None)"

fun decimal :: "nat \<Rightarrow> string" where
  "decimal n = (if n < 10 then [digitChar n] else decimal (n div 10) @ [digitChar (n mod 10)])"

fun parseDigits :: "string \<Rightarrow> nat \<Rightarrow> nat option" where
  "parseDigits [] acc = Some acc"
| "parseDigits (c # cs) acc =
     (case digitValue c of None \<Rightarrow> None | Some d \<Rightarrow> parseDigits cs (acc * 10 + d))"

definition parseInteger :: "string \<Rightarrow> nat option" where
  "parseInteger s = (if s = [] then None else parseDigits s 0)"

record ModelDirective =
  canonicalModelId :: string
  reasoningBudget :: "nat option"

text \<open>
  Modelled from the spec: the reasoning budget of a directive. The code that reads the
  budget out of the model name is the chat converter, which \<open>adaptor.go\<close> calls but does
  not contain. Following section 4.1, for the form \<open><base>-thinking-<budget>\<close> the budget
  is the integer parsed from the text after the first \<open>-thinking-\<close>; no other form
  carries a budget, and none is read while the adapter is disabled. The canonical model
  id is not modelled from the specification: it is the model name as \<open>GetRequestURL\<close>
  leaves it.
\<close>

definition ParseDirective :: "bool \<Rightarrow> string \<Rightarrow> ModelDirective" where
  "ParseDirective ThinkingAdapterEnabled modelId =
     \<lparr>canonicalModelId = (if ThinkingAdapterEnabled then thinkingAdapter modelId else modelId),
      reasoningBudget =
        (if ThinkingAdapterEnabled then
           (case Index modelId ''-thinking-'' of
              None \<Rightarrow> None
            | Some m \<Rightarrow> parseInteger (drop (m + length ''-thinking-'') modelId))
         else None)\<rparr>"

subsection \<open>ConvertImageRequest\<close>

record ImageRequest =
  Prompt :: string
  N :: int
  Size :: string

record GeminiImageInstance =
  Prompt :: string

record GeminiImageParameters =
  SampleCount :: int
  AspectRatio :: string
  PersonGeneration :: string

record GeminiImageRequest =
  Instances :: "GeminiImageInstance list"
  Parameters :: GeminiImageParameters

text \<open>The \<open>switch\<close> on \<open>request.Size\<close>: the default is set first, then the three cases
  in the source's order.\<close>

definition aspectRatio :: "string \<Rightarrow> string" where
  "aspectRatio requestSize =
     (let default = ''1:1''
      in if requestSize = ''1024x1024'' then ''1:1''
         else if requestSize = ''1024x1792'' then ''9:16''
         else if requestSize = ''1792x1024'' then ''16:9''
         else default)"

definition ConvertImageRequest :: "RelayInfo \<Rightarrow> ImageRequest \<Rightarrow> string + GeminiImageRequest" where
  "ConvertImageRequest info request =
     (if \<not> HasPrefix (UpstreamModelName info) ''imagen''
      then Inl ''not supported model for image generation''
      else Inr \<lparr>Instances = [\<lparr>GeminiImageInstance.Prompt = ImageRequest.Prompt request\<rparr>],
                Parameters = \<lparr>SampleCount = N request,
                              AspectRatio = aspectRatio (Size request),
                              PersonGeneration = ''allow_adult''\<rparr>\<rparr>)"

subsection \<open>Dynamically typed values\<close>

text \<open>A Go value of type \<open>any\<close> as JSON decoding produces it: \<open>nil\<close>, a string, a
  \<open>float64\<close>, a bool, a slice of such values, or a map from strings to such values.\<close>

typedecl float64

datatype any =
    AnyNil
  | AnyString string
  | AnyFloat64 float64
  | AnyBool bool
  | AnySlice "any list"
  | AnyMap "string \<Rightarrow> any option"

text \<open>Reading a Go map: a missing key gives the zero value, here \<open>nil\<close>; so does every
  key of the \<open>nil\<close> map.\<close>

definition mapIndex :: "(string \<rightharpoonup> any) \<Rightarrow> string \<Rightarrow> any" where
  "mapIndex m k = (case m k of None \<Rightarrow> AnyNil | Some v \<Rightarrow> v)"

text \<open>The two-valued type assertion \<open>m, _ := v.(map[string]any)\<close>: the map when \<open>v\<close>
  holds one, the \<open>nil\<close> map (no key present) otherwise. It never panics.\<close>

definition assertMap :: "any \<Rightarrow> (string \<rightharpoonup> any)" where
  "assertMap v = (case v of AnyMap m \<Rightarrow> m | _ \<Rightarrow> Map.empty)"

text \<open>Whether the one-valued assertion \<open>v.(string)\<close> succeeds.\<close>

definition isString :: "any \<Rightarrow> bool" where
  "isString v = (case v of AnyString _ \<Rightarrow> True | _ \<Rightarrow> False)"

text \<open>What a conversion can end in besides its value: an \<open>error\<close> returned to the caller,
  or a run-time panic (here always a failed type assertion \<open>x.(string)\<close>).\<close>

datatype failure = Error string | Panic

subsection \<open>The vendor's chat content\<close>

record GeminiInlineData =
  MimeType :: string
  Data :: string

record GeminiPart =
  Text :: string
  InlineData :: "GeminiInlineData option"

record GeminiChatContent =
  Role :: string
  Parts :: "GeminiPart list"

record Message =
  Role :: string
  Content :: any

subsection \<open>openAIMessageContentToGeminiParts and openAIMessageToGeminiContent\<close>

text \<open>
  The loop over the items of a content list, with the parts collected so far. The two
  media services are parameters: \<open>DecodeBase64FileData\<close> gives the format and the
  base64 data of a data URI or fails, \<open>GetFileBase64FromUrl\<close> gives the MIME type and
  the base64 data of a fetched file or fails. \<open>mediaMap["image_url"].(map[string]any)\<close>
  is the two-valued assertion, which gives the \<open>nil\<close> map instead of panicking;
  \<open>mediaMap["text"].(string)\<close> and \<open>imageUrl["url"].(string)\<close> are one-valued and panic
  on anything that is not a string.
\<close>

fun encodeItems ::
  "(string \<Rightarrow> string + string \<times> string) \<Rightarrow> (string \<Rightarrow> string + string \<times> string) \<Rightarrow>
   any list \<Rightarrow> GeminiPart list \<Rightarrow> failure + GeminiPart list" where
  "encodeItems DecodeBase64FileData GetFileBase64FromUrl [] parts = Inr parts"
| "encodeItems DecodeBase64FileData GetFileBase64FromUrl (mediaContent # rest) parts =
     (case mediaContent of
        AnyMap mediaMap \<Rightarrow>
          if mapIndex mediaMap ''type'' = AnyString ''text'' then
            (case mapIndex mediaMap ''text'' of
               AnyString text \<Rightarrow>
                 encodeItems DecodeBase64FileData GetFileBase64FromUrl rest
                   (parts @ [\<lparr>Text = text, InlineData = None\<rparr>])
             | _ \<Rightarrow> Inl Panic)
          else if mapIndex mediaMap ''type'' = AnyString ''image_url'' then
            (let imageUrl = assertMap (mapIndex mediaMap ''image_url'')
             in case mapIndex imageUrl ''url'' of
                  AnyString url \<Rightarrow>
                    (case DecodeBase64FileData url of
                       Inr (format, base64) \<Rightarrow>
                         encodeItems DecodeBase64FileData GetFileBase64FromUrl rest
                           (parts @ [\<lparr>Text = [],
                                      InlineData = Some \<lparr>MimeType = format, Data = base64\<rparr>\<rparr>])
                     | Inl err \<Rightarrow>
                         (case GetFileBase64FromUrl url of
                            Inl err \<Rightarrow> Inl (Error err)
                          | Inr (format, base64) \<Rightarrow>
                              encodeItems DecodeBase64FileData GetFileBase64FromUrl rest
                                (parts @ [\<lparr>Text = [],
                                           InlineData =
                                             Some \<lparr>MimeType = format, Data = base64\<rparr>\<rparr>])))
                | _ \<Rightarrow> Inl Panic)
          else encodeItems DecodeBase64FileData GetFileBase64FromUrl rest parts
      | _ \<Rightarrow> encodeItems DecodeBase64FileData GetFileBase64FromUrl rest parts)"

definition openAIMessageContentToGeminiParts ::
  "(string \<Rightarrow> string + string \<times> string) \<Rightarrow> (string \<Rightarrow> string + string \<times> string) \<Rightarrow>
   any \<Rightarrow> failure + GeminiPart list" where
  "openAIMessageContentToGeminiParts DecodeBase64FileData GetFileBase64FromUrl content_any =
     (case content_any of
        AnyString content \<Rightarrow> Inr ([] @ [\<lparr>Text = content, InlineData = None\<rparr>])
      | AnySlice mediaContents \<Rightarrow>
          encodeItems DecodeBase64FileData GetFileBase64FromUrl mediaContents []
      | _ \<Rightarrow> Inl (Error ''unsupported message content format''))"

definition openAIMessageToGeminiContent ::
  "(string \<Rightarrow> string + string \<times> string) \<Rightarrow> (string \<Rightarrow> string + string \<times> string) \<Rightarrow>
   Message \<Rightarrow> failure + GeminiChatContent" where
  "openAIMessageToGeminiContent DecodeBase64FileData GetFileBase64FromUrl message =
     (let role = Message.Role message;
          role = (if role = ''assistant'' then ''model'' else role)
      in case openAIMessageContentToGeminiParts DecodeBase64FileData GetFileBase64FromUrl
                (Content message) of
           Inl err \<Rightarrow> Inl err
         | Inr parts \<Rightarrow> Inr \<lparr>GeminiChatContent.Role = role, Parts = parts\<rparr>)"

subsection \<open>ConvertEmbeddingRequest and ConvertRerankRequest\<close>

record EmbeddingRequest =
  Input :: any
  Dimensions :: int

record GeminiEmbeddingRequest =
  Content :: GeminiChatContent
  OutputDimensionality :: int

text \<open>
  \<open>request.ParseInput()\<close> belongs to the request type, which the adaptor imports; it is
  a parameter here. \<open>inputs[0]\<close> is read only after the length check, so it is in range.
\<close>

definition ConvertEmbeddingRequest ::
  "(EmbeddingRequest \<Rightarrow> string list) \<Rightarrow> RelayInfo \<Rightarrow> EmbeddingRequest \<Rightarrow>
   string + GeminiEmbeddingRequest" where
  "ConvertEmbeddingRequest ParseInput info request =
     (if Input request = AnyNil then Inl ''input is required''
      else
        let inputs = ParseInput request
        in if length inputs = 0 then Inl ''input is empty''
           else
             let geminiRequest =
                   \<lparr>Content = \<lparr>GeminiChatContent.Role = [],
                                Parts = [\<lparr>Text = inputs ! 0, InlineData = None\<rparr>]\<rparr>,
                    OutputDimensionality = 0\<rparr>
             in if UpstreamModelName info = ''text-embedding-004'' \<and> Dimensions request > 0
                then Inr (geminiRequest\<lparr>OutputDimensionality := Dimensions request\<rparr>)
                else Inr geminiRequest)"

text \<open>The rerank converter ignores its arguments; the Go pair \<open>(nil, nil)\<close> is a pair of
  two absent values.\<close>

definition ConvertRerankRequest :: "int \<Rightarrow> 'request \<Rightarrow> 'payload option \<times> string option" where
  "ConvertRerankRequest relayMode request = (None, None)"

section \<open>Properties\<close>

subsection \<open>Strings and numerals\<close>

declare decimal.simps [simp del]

lemma Split_not_Nil: "sep \<noteq> [] \<Longrightarrow> Split s sep \<noteq> []"
  by (subst Split.simps) (simp split: option.split)

lemma HasPrefix_extend:
  "length sep \<le> length s \<Longrightarrow> HasPrefix (s @ t) sep = HasPrefix s sep"
  by (simp add: HasPrefix_def)

text \<open>If the separator \<open>bs @ [l]\<close> does not occur in \<open>base @ bs\<close>, its leftmost
  occurrence in \<open>base @ bs @ l # rest\<close> is the one right after \<open>base\<close>.\<close>

lemma Index_at_delimiter:
  assumes "Index (base @ bs) (bs @ [l]) = None"
  shows "Index (base @ bs @ l # rest) (bs @ [l]) = Some (length base)"
  using assms
proof (induction base)
  case Nil
  show ?case
    by (cases bs) (simp_all add: HasPrefix_def)
next
  case (Cons c cs)
  from Cons.prems have np: "\<not> HasPrefix (c # cs @ bs) (bs @ [l])"
    and rest: "Index (cs @ bs) (bs @ [l]) = None"
    by (auto split: if_splits option.splits)
  have "HasPrefix ((c # cs @ bs) @ (l # rest)) (bs @ [l]) = HasPrefix (c # cs @ bs) (bs @ [l])"
    by (rule HasPrefix_extend) simp
  with np have "\<not> HasPrefix (c # cs @ bs @ l # rest) (bs @ [l])" by simp
  moreover have "Index (cs @ bs @ l # rest) (bs @ [l]) = Some (length cs)"
    using Cons.IH rest by simp
  ultimately show ?case by simp
qed

lemma Index_thinking_budget:
  assumes "\<not> Contains (base @ ''-thinking'') ''-thinking-''"
  shows "Index (base @ ''-thinking-'' @ rest) ''-thinking-'' = Some (length base)"
proof -
  from assms have "Index (base @ ''-thinking'') (''-thinking'' @ ''-'') = None"
    by (simp add: Contains_def)
  then have "Index (base @ ''-thinking'' @ CHR ''-'' # rest) (''-thinking'' @ ''-'')
               = Some (length base)"
    by (rule Index_at_delimiter)
  then show ?thesis by simp
qed

lemma digitValue_digitChar:
  assumes "d < 10"
  shows "digitValue (digitChar d) = Some d"
proof -
  have "of_char (digitChar d) = (48 + d :: nat)"
    using assms by (simp add: digitChar_def)
  then show ?thesis
    using assms by (simp add: digitValue_def)
qed

lemma parseDigits_append:
  "parseDigits (xs @ ys) acc =
     (case parseDigits xs acc of None \<Rightarrow> None | Some a \<Rightarrow> parseDigits ys a)"
  by (induction xs arbitrary: acc) (auto split: option.splits)

lemma parseDigits_decimal:
  "parseDigits (decimal n) acc = Some (acc * 10 ^ length (decimal n) + n)"
proof (induction n arbitrary: acc rule: decimal.induct)
  case (1 n)
  show ?case
  proof (cases "n < 10")
    case True
    then show ?thesis
      by (simp add: decimal.simps [of n] digitValue_digitChar)
  next
    case False
    have d: "digitValue (digitChar (n mod 10)) = Some (n mod 10)"
      by (rule digitValue_digitChar) simp
    from False have dec: "decimal n = decimal (n div 10) @ [digitChar (n mod 10)]"
      by (simp add: decimal.simps [of n])
    have "parseDigits (decimal n) acc =
            Some ((acc * 10 ^ length (decimal (n div 10)) + n div 10) * 10 + n mod 10)"
      using "1.IH" [OF False, of acc] by (simp add: dec parseDigits_append d)
    also have "(acc * 10 ^ length (decimal (n div 10)) + n div 10) * 10 + n mod 10 =
                 acc * 10 ^ length (decimal n) + n"
      by (simp add: dec algebra_simps)
    finally show ?thesis .
  qed
qed

lemma decimal_not_Nil: "decimal n \<noteq> []"
  by (subst decimal.simps) simp

lemma parseInteger_decimal: "parseInteger (decimal n) = Some n"
  by (simp add: parseInteger_def decimal_not_Nil parseDigits_decimal)

subsection \<open>The model directive and the endpoint\<close>

lemma Index_thinking_name:
  assumes "\<not> Contains (base @ ''-thinking'') ''-thinking-''"
    and "name = base @ ''-thinking-'' @ rest"
  shows "Index name ''-thinking-'' = Some (length base)"
  using Index_thinking_budget [OF assms(1), of rest] assms(2) by simp

lemma thinkingAdapter_budget:
  assumes "\<not> Contains (base @ ''-thinking'') ''-thinking-''"
    and "name = base @ ''-thinking-'' @ rest"
  shows "thinkingAdapter name = base"
proof -
  have ix: "Index name ''-thinking-'' = Some (length base)"
    using assms by (rule Index_thinking_name)
  have tk: "take (length base) name = base"
    using assms(2) by simp
  have "Split name ''-thinking-'' ! 0 = base"
    by (subst Split.simps) (simp add: ix tk)
  then show ?thesis
    by (simp add: thinkingAdapter_def Contains_def ix)
qed

lemma Index_Some_bound: "Index s sep = Some i \<Longrightarrow> i + length sep \<le> length s"
proof (induction s arbitrary: i)
  case Nil
  then show ?case by (simp split: if_splits)
next
  case (Cons c cs)
  show ?case
  proof (cases "HasPrefix (c # cs) sep")
    case True
    with Cons.prems show ?thesis by (simp add: HasPrefix_def)
  next
    case False
    with Cons.prems obtain m where m: "Index cs sep = Some m" and i: "i = Suc m"
      by (auto split: option.splits)
    from Cons.IH [OF m] i show ?thesis by simp
  qed
qed

lemma Index_append_Some: "Index s sep = Some i \<Longrightarrow> Index (s @ t) sep = Some i"
proof (induction s arbitrary: i)
  case Nil
  then show ?case by (cases t) (simp_all add: HasPrefix_def split: if_splits)
next
  case (Cons c cs)
  show ?case
  proof (cases "HasPrefix (c # cs) sep")
    case True
    then have "length sep \<le> length (c # cs)" by (simp add: HasPrefix_def)
    then have "HasPrefix ((c # cs) @ t) sep = HasPrefix (c # cs) sep"
      by (rule HasPrefix_extend)
    with True Cons.prems show ?thesis by simp
  next
    case False
    with Cons.prems obtain m where m: "Index cs sep = Some m" and i: "i = Suc m"
      by (auto split: option.splits)
    from Index_Some_bound [OF m] have "length sep \<le> length (c # cs)" by simp
    then have "HasPrefix ((c # cs) @ t) sep = HasPrefix (c # cs) sep"
      by (rule HasPrefix_extend)
    with False have "\<not> HasPrefix (c # cs @ t) sep" by simp
    with Cons.IH [OF m] i show ?thesis by simp
  qed
qed

text \<open>Conversely, when \<open>-thinking-\<close> does begin inside the base, the name is cut there
  and the result is a proper prefix of the base: the condition of the next theorem is the
  weakest one.\<close>

lemma thinkingAdapter_budget_truncates:
  assumes "Contains (base @ ''-thinking'') ''-thinking-''"
  shows "thinkingAdapter (base @ ''-thinking-'' @ rest) \<noteq> base"
proof -
  define name where "name = base @ ''-thinking-'' @ rest"
  from assms obtain i where i: "Index (base @ ''-thinking'') ''-thinking-'' = Some i"
    by (auto simp add: Contains_def)
  from Index_Some_bound [OF i] have lt: "i < length base" by simp
  have "name = (base @ ''-thinking'') @ (CHR ''-'' # rest)"
    by (simp add: name_def)
  with Index_append_Some [OF i] have ix: "Index name ''-thinking-'' = Some i"
    by simp
  have "Split name ''-thinking-'' ! 0 = take i name"
    by (subst Split.simps) (simp add: ix)
  then have "thinkingAdapter name = take i name"
    by (simp add: thinkingAdapter_def Contains_def ix)
  moreover have "length (take i name) < length base"
    using lt by (simp add: name_def)
  ultimately show ?thesis
    unfolding name_def by auto
qed

text \<open>
  Claim C3, as far as it holds. The name is cut at the leftmost \<open>-thinking-\<close>, so the
  canonical id is the base only when no \<open>-thinking-\<close> begins inside the base, that is,
  when \<open>-thinking-\<close> does not occur in the base followed by \<open>-thinking\<close>. For every such
  base and every budget \<open>b\<close>, with the adapter enabled, the model name
  \<open>base-thinking-b\<close> (\<open>b\<close> in decimal) is rewritten to the base by \<open>GetRequestURL\<close>, and
  the directive has the base as canonical id and \<open>b\<close> as reasoning budget.
\<close>

theorem thinking_budget_directive:
  assumes "\<not> Contains (base @ ''-thinking'') ''-thinking-''"
  shows "UpstreamModelName (fst (GetRequestURL True version
             (info\<lparr>UpstreamModelName := base @ ''-thinking-'' @ decimal b\<rparr>))) = base
       \<and> ParseDirective True (base @ ''-thinking-'' @ decimal b)
           = \<lparr>canonicalModelId = base, reasoningBudget = Some b\<rparr>"
proof -
  define name where "name = base @ ''-thinking-'' @ decimal b"
  have ix: "Index name ''-thinking-'' = Some (length base)"
    using assms name_def by (rule Index_thinking_name)
  have ta: "thinkingAdapter name = base"
    using assms name_def by (rule thinkingAdapter_budget)
  have dr: "drop (length base + length ''-thinking-'') name = decimal b"
    by (simp add: name_def)
  have "UpstreamModelName (fst (GetRequestURL True version
             (info\<lparr>UpstreamModelName := name\<rparr>))) = base"
    by (simp add: GetRequestURL_def Let_def ta)
  moreover have "ParseDirective True name
           = \<lparr>canonicalModelId = base, reasoningBudget = Some b\<rparr>"
    using dr by (simp add: ParseDirective_def ta ix parseInteger_decimal)
  ultimately show ?thesis
    unfolding name_def by (rule conjI)
qed

text \<open>Claim C3 at the specification's own example: the base \<open>foo\<close> and the budget 512.\<close>

theorem thinking_budget_directive_witness:
  "\<not> Contains (''foo'' @ ''-thinking'') ''-thinking-''
   \<and> UpstreamModelName (fst (GetRequestURL True (\<lambda>_. ''v1beta'')
        \<lparr>UpstreamModelName = ''foo-thinking-512'', BaseUrl = ''https://host'',
         IsStream = False\<rparr>)) = ''foo''
   \<and> ParseDirective True ''foo-thinking-512''
       = \<lparr>canonicalModelId = ''foo'', reasoningBudget = Some 512\<rparr>"
proof -
  have h: "\<not> Contains (''foo'' @ ''-thinking'') ''-thinking-''"
    by (simp add: Contains_def HasPrefix_def)
  have d: "decimal 512 = ''512''"
    by code_simp
  show ?thesis
    using h thinking_budget_directive [OF h, where version = "\<lambda>_. ''v1beta''" and b = 512
        and info = "\<lparr>UpstreamModelName = ''foo-thinking-512'', BaseUrl = ''https://host'',
                      IsStream = False\<rparr>"]
    by (simp add: d)
qed

text \<open>Claim C3 as stated, for every base string, fails: for the base \<open>a-thinking-b\<close> and
  the budget 5 the model name \<open>a-thinking-b-thinking-5\<close> is rewritten to \<open>a\<close>, not to the
  base.\<close>

theorem thinking_budget_base_counterexample:
  "UpstreamModelName (fst (GetRequestURL True (\<lambda>_. ''v1beta'')
        \<lparr>UpstreamModelName = ''a-thinking-b'' @ ''-thinking-'' @ decimal 5,
         BaseUrl = ''https://host'', IsStream = False\<rparr>)) \<noteq> ''a-thinking-b''"
proof -
  have d: "decimal 5 = ''5''"
    by code_simp
  have "Split ''a-thinking-b-thinking-5'' ''-thinking-'' ! 0 = ''a''"
    by (subst Split.simps) (simp add: HasPrefix_def)
  then have "thinkingAdapter ''a-thinking-b-thinking-5'' = ''a''"
    by (simp add: thinkingAdapter_def Contains_def HasPrefix_def)
  then show ?thesis
    by (simp add: GetRequestURL_def Let_def d)
qed

text \<open>
  Claim C4. For every model id, streaming flag, base URL and version lookup,
  \<open>GetRequestURL\<close> returns no error and the URL \<open>{base}/{version}/models/{id}:{action}\<close>,
  where the id is the model name as the function leaves it (the name itself when the
  adapter is disabled), the version is looked up for that id, and the action is the one
  the prefix rules give for that id, in their order.
\<close>

theorem GetRequestURL_form:
  "snd (GetRequestURL enabled version info) =
     Inr (BaseUrl info @ ''/''
          @ version (UpstreamModelName (fst (GetRequestURL enabled version info)))
          @ ''/models/'' @ UpstreamModelName (fst (GetRequestURL enabled version info))
          @ '':'' @ resolvedAction (UpstreamModelName (fst (GetRequestURL enabled version info)))
                      (IsStream info))
   \<and> UpstreamModelName (fst (GetRequestURL enabled version info)) =
       (if enabled then thinkingAdapter (UpstreamModelName info) else UpstreamModelName info)"
  by (simp add: GetRequestURL_def Let_def resolvedAction_def)

text \<open>Claim C8. With the thinking adapter disabled, \<open>GetRequestURL\<close> leaves the request
  info, and with it the effective model id, as it was, whatever the model id is.\<close>

theorem adapter_disabled_identity:
  "fst (GetRequestURL False version info) = info"
  by (simp add: GetRequestURL_def Let_def)

subsection \<open>The image handler\<close>

lemma appendImages_length:
  "length (appendImages ps data) =
     length data + length (filter (\<lambda>p. RaiFilteredReason p = []) ps)"
  by (induction ps arbitrary: data) auto

lemma appendImages_count: "length (appendImages (Predictions r) []) = length (surviving r)"
  by (simp add: appendImages_length surviving_def)

text \<open>
  Claim C1 asks for an error whenever no prediction survives the filter. The handler
  tests the prediction list for emptiness before it filters: for a response whose only
  prediction carries a filter reason, no prediction survives, and yet the handler writes
  the (empty) image list with the upstream status and returns a usage record of zeros
  and no error.
\<close>

theorem GeminiImageHandler_all_filtered:
  "surviving \<lparr>Predictions = [\<lparr>BytesBase64Encoded = [], RaiFilteredReason = ''blocked''\<rparr>]\<rparr> = []
   \<and> GeminiImageHandler
        (\<lambda>_. Inr \<lparr>Predictions = [\<lparr>BytesBase64Encoded = [], RaiFilteredReason = ''blocked''\<rparr>]\<rparr>)
        (\<lambda>_. Inr json) now w \<lparr>Body = Inr body, StatusCode = 200\<rparr>
     = (w\<lparr>Header := (Header w)(''Content-Type'' \<mapsto> ''application/json''),
          Status := Some 200, Written := Written w @ json\<rparr>,
        Inr \<lparr>PromptTokens = 0, CompletionTokens = 0, TotalTokens = 0\<rparr>)"
  by (simp add: surviving_def GeminiImageHandler_def)

text \<open>
  Claim C2. Let the body be read and decoded to a vendor response \<open>r\<close> with \<open>N\<close> surviving
  predictions. The handler returns a usage record exactly when the prediction list is
  not empty and the unified response can be encoded, and every usage record it returns
  is \<open>{PromptTokens = 258 * N, CompletionTokens = 0, TotalTokens = 258 * N}\<close>; its total
  is the sum of prompt and completion tokens.
\<close>

theorem GeminiImageHandler_usage:
  assumes "Body resp = Inr body" and "Unmarshal body = Inr r"
  shows "(\<exists>u. snd (GeminiImageHandler Unmarshal Marshal now w resp) = Inr u) =
           (Predictions r \<noteq> [] \<and>
            (\<exists>json. Marshal \<lparr>Created = now, Data = appendImages (Predictions r) []\<rparr> = Inr json))
       \<and> (\<forall>u. snd (GeminiImageHandler Unmarshal Marshal now w resp) = Inr u \<longrightarrow>
             u = \<lparr>PromptTokens = 258 * int (length (surviving r)), CompletionTokens = 0,
                  TotalTokens = 258 * int (length (surviving r))\<rparr>
             \<and> TotalTokens u = PromptTokens u + CompletionTokens u)"
proof (cases "Predictions r = []")
  case True
  with assms show ?thesis
    by (simp add: GeminiImageHandler_def)
next
  case False
  show ?thesis
  proof (cases "Marshal \<lparr>Created = now, Data = appendImages (Predictions r) []\<rparr>")
    case (Inl e)
    with assms False show ?thesis
      by (simp add: GeminiImageHandler_def)
  next
    case (Inr json)
    with assms False show ?thesis
      by (auto simp add: GeminiImageHandler_def Let_def appendImages_count)
  qed
qed

text \<open>Claim C2 on a response of three predictions, the second one filtered: two survive
  and the usage is 516 prompt tokens, no completion tokens, 516 in total.\<close>

theorem GeminiImageHandler_usage_witness:
  "length (surviving
      \<lparr>Predictions = [\<lparr>BytesBase64Encoded = ''AAAA'', RaiFilteredReason = []\<rparr>,
                      \<lparr>BytesBase64Encoded = [], RaiFilteredReason = ''blocked''\<rparr>,
                      \<lparr>BytesBase64Encoded = ''BBBB'', RaiFilteredReason = []\<rparr>]\<rparr>) = 2
   \<and> snd (GeminiImageHandler
        (\<lambda>_. Inr \<lparr>Predictions = [\<lparr>BytesBase64Encoded = ''AAAA'', RaiFilteredReason = []\<rparr>,
                               \<lparr>BytesBase64Encoded = [], RaiFilteredReason = ''blocked''\<rparr>,
                               \<lparr>BytesBase64Encoded = ''BBBB'', RaiFilteredReason = []\<rparr>]\<rparr>)
        (\<lambda>_. Inr ''json'') 0 \<lparr>Header = Map.empty, Status = None, Written = []\<rparr>
        \<lparr>Body = Inr ''body'', StatusCode = 200\<rparr>)
     = Inr \<lparr>PromptTokens = 516, CompletionTokens = 0, TotalTokens = 516\<rparr>"
proof -
  let ?r = "\<lparr>Predictions = [\<lparr>BytesBase64Encoded = ''AAAA'', RaiFilteredReason = []\<rparr>,
                               \<lparr>BytesBase64Encoded = [], RaiFilteredReason = ''blocked''\<rparr>,
                               \<lparr>BytesBase64Encoded = ''BBBB'', RaiFilteredReason = []\<rparr>]\<rparr>"
  let ?resp = "\<lparr>Body = Inr ''body'', StatusCode = 200\<rparr>"
  have b: "Body ?resp = Inr ''body''" by simp
  have u: "(\<lambda>_. Inr ?r) ''body'' = (Inr ?r :: string + GeminiImageResponse)" by simp
  have s: "length (surviving ?r) = 2" by (simp add: surviving_def)
  show ?thesis
    using GeminiImageHandler_usage [OF b u, where Marshal = "\<lambda>_. Inr ''json''" and now = 0
        and w = "\<lparr>Header = Map.empty, Status = None, Written = []\<rparr>"]
    by (auto simp add: s)
qed

subsection \<open>The request converters\<close>

text \<open>
  Claim C5. The embedding converter returns an error exactly when the input is absent or
  parses to the empty sequence; when the input is present and parses to a non-empty
  sequence, it succeeds and the payload's content has a single part, whose text is the
  first parsed string.
\<close>

theorem ConvertEmbeddingRequest_first_input:
  "isl (ConvertEmbeddingRequest ParseInput info request) =
     (Input request = AnyNil \<or> ParseInput request = [])
   \<and> (Input request \<noteq> AnyNil \<and> ParseInput request \<noteq> [] \<longrightarrow>
        (\<exists>payload. ConvertEmbeddingRequest ParseInput info request = Inr payload
           \<and> Parts (Content payload) = [\<lparr>Text = hd (ParseInput request), InlineData = None\<rparr>]))"
  by (auto simp add: ConvertEmbeddingRequest_def Let_def hd_conv_nth)

text \<open>Claim C5 on the input \<open>["a","b","c"]\<close>: the conversion succeeds and the payload
  carries only \<open>"a"\<close>.\<close>

theorem ConvertEmbeddingRequest_first_input_witness:
  "\<not> isl (ConvertEmbeddingRequest (\<lambda>_. [''a'', ''b'', ''c''])
       \<lparr>UpstreamModelName = ''text-embedding-004'', BaseUrl = [], IsStream = False\<rparr>
       \<lparr>Input = AnySlice [AnyString ''a'', AnyString ''b'', AnyString ''c''], Dimensions = 0\<rparr>)
   \<and> (\<exists>payload. ConvertEmbeddingRequest (\<lambda>_. [''a'', ''b'', ''c''])
       \<lparr>UpstreamModelName = ''text-embedding-004'', BaseUrl = [], IsStream = False\<rparr>
       \<lparr>Input = AnySlice [AnyString ''a'', AnyString ''b'', AnyString ''c''], Dimensions = 0\<rparr>
         = Inr payload
       \<and> Parts (Content payload) = [\<lparr>Text = ''a'', InlineData = None\<rparr>])"
  using ConvertEmbeddingRequest_first_input [where ParseInput = "\<lambda>_. [''a'', ''b'', ''c'']"
      and info = "\<lparr>UpstreamModelName = ''text-embedding-004'', BaseUrl = [], IsStream = False\<rparr>"
      and request = "\<lparr>Input = AnySlice [AnyString ''a'', AnyString ''b'', AnyString ''c''],
                        Dimensions = 0\<rparr>"]
  by simp

text \<open>
  Claim C6. The size-to-aspect-ratio mapping sends \<open>1024x1792\<close> to \<open>9:16\<close>, \<open>1792x1024\<close>
  to \<open>16:9\<close>, \<open>1024x1024\<close> to \<open>1:1\<close> and every other string to \<open>1:1\<close>; it is the aspect
  ratio of the payload the image converter builds for an \<open>imagen\<close> model.
\<close>

theorem aspectRatio_table:
  "aspectRatio ''1024x1792'' = ''9:16'' \<and> aspectRatio ''1792x1024'' = ''16:9''
   \<and> aspectRatio ''1024x1024'' = ''1:1''
   \<and> (requestSize \<noteq> ''1024x1792'' \<and> requestSize \<noteq> ''1792x1024'' \<longrightarrow>
        aspectRatio requestSize = ''1:1'')
   \<and> (HasPrefix (UpstreamModelName info) ''imagen'' \<longrightarrow>
        (\<exists>payload. ConvertImageRequest info request = Inr payload
           \<and> AspectRatio (Parameters payload) = aspectRatio (Size request)))"
  by (simp add: aspectRatio_def ConvertImageRequest_def)

text \<open>Claim C6 on the empty size, and on the image request of the specification's
  scenario (model \<open>imagen-3\<close>, size \<open>1792x1024\<close>).\<close>

theorem aspectRatio_table_witness:
  "aspectRatio [] = ''1:1''
   \<and> (\<exists>payload.
        ConvertImageRequest \<lparr>UpstreamModelName = ''imagen-3'', BaseUrl = [], IsStream = False\<rparr>
          \<lparr>ImageRequest.Prompt = ''a cat'', N = 2, Size = ''1792x1024''\<rparr> = Inr payload
        \<and> AspectRatio (Parameters payload) = ''16:9'')"
  using aspectRatio_table [where requestSize = "[]"
      and info = "\<lparr>UpstreamModelName = ''imagen-3'', BaseUrl = [], IsStream = False\<rparr>"
      and request = "\<lparr>ImageRequest.Prompt = ''a cat'', N = 2, Size = ''1792x1024''\<rparr>"]
  by (auto simp add: HasPrefix_def)

text \<open>Claim C10. For every relay mode and every rerank request, the rerank converter
  returns no payload and no error.\<close>

theorem ConvertRerankRequest_nil:
  "ConvertRerankRequest relayMode request = (None, None)"
  by (simp add: ConvertRerankRequest_def)

subsection \<open>The part and content encoder\<close>

text \<open>Claim C7. A message with role \<open>assistant\<close> and a plain string \<open>s\<close> as content is
  converted, without error, to one content with role \<open>model\<close> and exactly one part, the
  text \<open>s\<close>.\<close>

theorem assistant_text_message:
  "openAIMessageToGeminiContent DecodeBase64FileData GetFileBase64FromUrl
       \<lparr>Message.Role = ''assistant'', Content = AnyString s\<rparr>
     = Inr \<lparr>GeminiChatContent.Role = ''model'', Parts = [\<lparr>Text = s, InlineData = None\<rparr>]\<rparr>"
  by (simp add: openAIMessageToGeminiContent_def openAIMessageContentToGeminiParts_def)

text \<open>The loop over a concatenation runs the first list, and then the second one from
  the parts the first has produced, unless the first has failed.\<close>

lemma encodeItems_append:
  "encodeItems D G (xs @ ys) parts =
     (case encodeItems D G xs parts of Inl e \<Rightarrow> Inl e | Inr ps \<Rightarrow> encodeItems D G ys ps)"
proof (induction xs arbitrary: parts)
  case Nil
  show ?case by simp
next
  case (Cons x xs)
  show ?case
    by (simp add: Cons.IH Let_def split: any.split sum.split prod.split)
qed

lemma not_isString: "\<not> isString v \<Longrightarrow> (case v of AnyString t \<Rightarrow> f t | _ \<Rightarrow> d) = d"
  by (cases v) (simp_all add: isString_def)

lemma encodeItems_panic:
  assumes "mapIndex m ''type'' = AnyString ''text'' \<and> \<not> isString (mapIndex m ''text'')
         \<or> mapIndex m ''type'' = AnyString ''image_url''
           \<and> \<not> isString (mapIndex (assertMap (mapIndex m ''image_url'')) ''url'')"
  shows "encodeItems D G (AnyMap m # post) parts = Inl Panic"
  using assms by (auto simp add: Let_def not_isString)

text \<open>
  Claim C9. Let a content list hold a map item whose \<open>type\<close> is \<open>text\<close> and whose
  \<open>text\<close> is missing or not a string, or whose \<open>type\<close> is \<open>image_url\<close> and whose
  \<open>image_url.url\<close> is missing or not a string. If the items before it are encoded without
  failure, the encoder panics at that item, whatever follows: it neither returns an
  error nor skips the item.
\<close>

theorem encoder_panics:
  assumes "encodeItems DecodeBase64FileData GetFileBase64FromUrl before [] = Inr parts"
    and "mapIndex m ''type'' = AnyString ''text'' \<and> \<not> isString (mapIndex m ''text'')
         \<or> mapIndex m ''type'' = AnyString ''image_url''
           \<and> \<not> isString (mapIndex (assertMap (mapIndex m ''image_url'')) ''url'')"
  shows "openAIMessageContentToGeminiParts DecodeBase64FileData GetFileBase64FromUrl
           (AnySlice (before @ AnyMap m # after)) = Inl Panic"
  using assms(1) encodeItems_panic [OF assms(2)]
  by (simp add: openAIMessageContentToGeminiParts_def encodeItems_append)

text \<open>Claim C9 on two contents: a text item without \<open>text\<close> after a well-formed text
  item, and an image item whose \<open>url\<close> is \<open>null\<close>.\<close>

theorem encoder_panics_witness:
  "openAIMessageContentToGeminiParts (\<lambda>_. Inl ''not a data URI'') (\<lambda>_. Inl ''fetch failed'')
       (AnySlice [AnyMap [''type'' \<mapsto> AnyString ''text'', ''text'' \<mapsto> AnyString ''hi''],
                  AnyMap [''type'' \<mapsto> AnyString ''text'']]) = Inl Panic
   \<and> openAIMessageContentToGeminiParts (\<lambda>_. Inl ''not a data URI'') (\<lambda>_. Inl ''fetch failed'')
       (AnySlice [AnyMap [''type'' \<mapsto> AnyString ''image_url'',
                         ''image_url'' \<mapsto> AnyMap [''url'' \<mapsto> AnyNil]]]) = Inl Panic"
proof -
  let ?D = "\<lambda>_ :: string. (Inl ''not a data URI'' :: string + string \<times> string)"
  let ?G = "\<lambda>_ :: string. (Inl ''fetch failed'' :: string + string \<times> string)"
  let ?ok = "AnyMap [''type'' \<mapsto> AnyString ''text'', ''text'' \<mapsto> AnyString ''hi'']"
  let ?tm = "[''type'' \<mapsto> AnyString ''text'']"
  let ?im = "[''type'' \<mapsto> AnyString ''image_url'',
              ''image_url'' \<mapsto> AnyMap [''url'' \<mapsto> AnyNil]]"
  have pre: "encodeItems ?D ?G [?ok] [] = Inr [\<lparr>Text = ''hi'', InlineData = None\<rparr>]"
    by (simp add: mapIndex_def)
  have t: "mapIndex ?tm ''type'' = AnyString ''text'' \<and> \<not> isString (mapIndex ?tm ''text'')
         \<or> mapIndex ?tm ''type'' = AnyString ''image_url''
           \<and> \<not> isString (mapIndex (assertMap (mapIndex ?tm ''image_url'')) ''url'')"
    by (simp add: mapIndex_def isString_def)
  have none: "encodeItems ?D ?G [] [] = Inr []" by simp
  have u: "mapIndex ?im ''type'' = AnyString ''text'' \<and> \<not> isString (mapIndex ?im ''text'')
         \<or> mapIndex ?im ''type'' = AnyString ''image_url''
           \<and> \<not> isString (mapIndex (assertMap (mapIndex ?im ''image_url'')) ''url'')"
    by (simp add: mapIndex_def isString_def assertMap_def)
  show ?thesis
    using encoder_panics [OF pre t, of "[]"] encoder_panics [OF none u, of "[]"]
    by simp
qed

end
